theory Spec2Isabelle
  imports Complex_Main
begin

section \<open>Python values and exceptions\<close>

text \<open>
  The sources are Python 2 (\<^verbatim>\<open>print "zero"\<close>, \<^verbatim>\<open>kwargs.iteritems()\<close>). A Python float is
  modelled by a real number: the claims are about which formula is computed and which
  branch is taken, not about binary rounding. The values that the code stores and returns
  are kept apart by their Python type, since \<^verbatim>\<open>[0,0]\<close> and \<^verbatim>\<open>[0.0,0.0]\<close> print differently.
\<close>

datatype pyobj =
    PyNone
  | PyInt int
  | PyFloat real
  | PyStr string
  | PyList "pyobj list"
  | PyObj string

datatype exn =
    ValueError
  | ZeroDivisionError
  | IndexError
  | OverflowError
  | RuntimeError
  | TypeError
  | AttributeError string
  | NameError string
  | InsufficientArgumentsError string
  | SamplingRateChangedError string

text \<open>\<^verbatim>\<open>int(v)\<close> on a float truncates towards zero.\<close>

definition py_int :: "real \<Rightarrow> int" where
  "py_int v = (if 0 \<le> v then \<lfloor>v\<rfloor> else \<lceil>v\<rceil>)"

text \<open>
  \<^verbatim>\<open>round(v, n)\<close> of Python 2: to \<open>n\<close> decimal places (tens, hundreds, ... for a negative
  \<open>n\<close>), halves away from zero; the result is a float.
\<close>

definition py_round :: "real \<Rightarrow> int \<Rightarrow> real" where
  "py_round v n = sgn v * of_int \<lfloor>\<bar>v\<bar> * power_int 10 n + 1 / 2\<rfloor> / power_int 10 n"

text \<open>\<^verbatim>\<open>math.log10(x)\<close> raises ValueError (math domain error) unless \<open>0 < x\<close>.\<close>

definition math_log10 :: "real \<Rightarrow> exn + real" where
  "math_log10 x = (if 0 < x then Inr (log 10 x) else Inl ValueError)"

text \<open>Float division \<^verbatim>\<open>a / float(b)\<close>: a zero divisor raises ZeroDivisionError.\<close>

definition py_truediv :: "real \<Rightarrow> real \<Rightarrow> exn + real" where
  "py_truediv a b = (if b = 0 then Inl ZeroDivisionError else Inr (a / b))"

section \<open>The statistics window: \<^verbatim>\<open>qtgui/statisticsview/statisticsview.py\<close>\<close>

subsection \<open>The window's state\<close>

text \<open>
  A label's text is the \<^verbatim>\<open>str\<close> of a computed value (plus a fixed unit); the model keeps
  the value, and \<open>None\<close> for the text that came with the \<^verbatim>\<open>.ui\<close> file. \<open>queued\<close> is the list
  of \<^verbatim>\<open>queryDB2\<close> invocations posted to the worker and not yet answered through
  \<^verbatim>\<open>resultsReady2\<close>. \<^verbatim>\<open>queryRunning\<close> is first assigned by \<^verbatim>\<open>_updatequery\<close>, which
  \<^verbatim>\<open>openDBFile\<close> calls before it connects the timer to \<^verbatim>\<open>OnAppIdle\<close>; the model starts there.
\<close>

datatype elapsed = Seconds real | MinSec int int

record stats_window =
  queryString :: string
  queryData :: "real list"
  totalEvents :: nat
  queryRunning :: bool
  neventsLabel :: "nat option"
  errorrateLabel :: "real option"
  caprateLabel :: "(pyobj \<times> pyobj) option"
  elapsedtimeLabel :: "elapsed option"
  queued :: "(string \<times> string) list"

text \<open>The window as \<^verbatim>\<open>__init__\<close> leaves it, with no query posted yet.\<close>

definition StatisticsWindow_init :: stats_window where
  "StatisticsWindow_init =
     \<lparr>queryString =
        ''select AbsEventStart from metadata where ProcessingStatus='' @ [CHR 0x27] @ ''normal''
          @ [CHR 0x27] @ '' order by AbsEventStart ASC'',
      queryData = [], totalEvents = 0, queryRunning = False,
      neventsLabel = None, errorrateLabel = None, caprateLabel = None,
      elapsedtimeLabel = None, queued = []\<rparr>"

subsection \<open>\<^verbatim>\<open>_roundcaprate\<close>\<close>

text \<open>
  \<^verbatim>\<open>
  def _roundcaprate(self, caprate):
      try:
          x,y=caprate
          sigx=int(min(0, math.log10(x)))
          if x<10:
              return [ round(x, sigx), round(y, sigx-1) ]
          else:
              return [ int(round(x, sigx)), int(round(y, sigx)) ]
      except:
          return [0,0]
  \<close>
  The two-element list is a pair. The only statement that can raise on real numbers is
  \<^verbatim>\<open>math.log10\<close>.
\<close>

definition pair0 :: "pyobj \<times> pyobj" where
  "pair0 = (PyInt 0, PyInt 0)"

definition roundcaprate :: "real \<times> real \<Rightarrow> pyobj \<times> pyobj" where
  "roundcaprate caprate =
     (case caprate of (x, y) \<Rightarrow>
        (case math_log10 x of
           Inl e \<Rightarrow> pair0
         | Inr l \<Rightarrow>
             (let sigx = py_int (min 0 l) in
              if x < 10
              then (PyFloat (py_round x sigx), PyFloat (py_round y (sigx - 1)))
              else (PyInt (py_int (py_round x sigx)), PyInt (py_int (py_round y sigx))))))"

subsection \<open>\<^verbatim>\<open>_caprate\<close>\<close>

text \<open>
  \<^verbatim>\<open>
  def _caprate(self):
      if len(self.queryData) < 200:
          return [0,0]
      arrtimes=np.diff(self.queryData)/1000.
      counts, bins = np.histogram(arrtimes, bins=100, density=True)
      try:
          popt, pcov = curve_fit(self._fitfunc, bins[:len(counts)], counts, p0=[1, np.mean(arrtimes)])
          perr=np.sqrt(np.diag(pcov))
      except:
          return [0,0]
      return self._roundcaprate([ 1/popt[1], 1/(popt[1]*math.sqrt(len(self.queryData))) ])
  \<close>
  The numerical library is not part of the repository; it is a parameter of the model.
  \<open>curve_fit lib arrtimes\<close> stands for the histogram of the inter-arrival times and the
  least-squares fit of \<open>a * exp (- t / tau)\<close> to it, started at \<open>[1, mean arrtimes]\<close>: it
  either raises (the fit did not converge) or returns the parameters \<open>(a, tau)\<close> and the
  covariance. \<open>sqrt_diag lib pcov\<close> stands for \<^verbatim>\<open>np.sqrt(np.diag(pcov))\<close>, which raises when the
  covariance that came back is not a matrix (what the fit returns when the covariance
  could not be estimated). Both calls are inside the \<^verbatim>\<open>try\<close>.
\<close>

record 'cov fitlib =
  curve_fit :: "real list \<Rightarrow> exn + ((real \<times> real) \<times> 'cov)"
  sqrt_diag :: "'cov \<Rightarrow> exn + real list"

text \<open>\<^verbatim>\<open>np.diff(a)\<close>: the differences \<open>a[i+1] - a[i]\<close>.\<close>

definition np_diff :: "real list \<Rightarrow> real list" where
  "np_diff xs = map2 (\<lambda>a b. b - a) xs (tl xs)"

text \<open>
  In line 129 \<open>popt[1]\<close> is a numpy float: dividing by a zero \<open>tau\<close> gives infinity there
  (with a warning), and \<^verbatim>\<open>_roundcaprate\<close> then fails in \<^verbatim>\<open>int(round(inf, 0))\<close> with an
  OverflowError that its own handler turns into \<^verbatim>\<open>[0,0]\<close>. The reals have no infinity, so
  the model of \<^verbatim>\<open>_caprate\<close> writes that branch out.
\<close>

definition caprate :: "'cov fitlib \<Rightarrow> stats_window \<Rightarrow> pyobj \<times> pyobj" where
  "caprate lib self =
     (if length (queryData self) < 200 then pair0
      else
        (let arrtimes = map (\<lambda>d. d / 1000) (np_diff (queryData self)) in
         case curve_fit lib arrtimes of
           Inl e \<Rightarrow> pair0
         | Inr (popt, pcov) \<Rightarrow>
             (case sqrt_diag lib pcov of
                Inl e \<Rightarrow> pair0
              | Inr perr \<Rightarrow>
                  (case popt of (a, tau) \<Rightarrow>
                     if tau = 0 then pair0
                     else roundcaprate
                            (1 / tau, 1 / (tau * sqrt (real (length (queryData self)))))))))"

text \<open>
  \<^verbatim>\<open>
  def _updatequery(self):
      self.qThread.start()
      QtCore.QMetaObject.invokeMethod(self.qWorker, 'queryDB2', Qt.QueuedConnection,
              QtCore.Q_ARG(str, self.queryString),
              QtCore.Q_ARG(str, "select ProcessingStatus from metadata") )
      self.queryRunning=True
  \<close>
\<close>

definition updatequery :: "stats_window \<Rightarrow> stats_window" where
  "updatequery s =
     s\<lparr>queued := queued s @ [(queryString s, ''select ProcessingStatus from metadata'')],
       queryRunning := True\<rparr>"

text \<open>
  \<^verbatim>\<open>
  def OnAppIdle(self):
      if not self.queryRunning:
          self._updatequery()
  \<close>
\<close>

definition OnAppIdle :: "stats_window \<Rightarrow> stats_window" where
  "OnAppIdle s = (if \<not> queryRunning s then updatequery s else s)"

text \<open>
  \<^verbatim>\<open>openDBFile\<close> makes a new worker (nothing posted to it yet) and calls \<^verbatim>\<open>_updatequery\<close>.
\<close>

definition openDBFile :: "stats_window \<Rightarrow> stats_window" where
  "openDBFile s = updatequery (s\<lparr>queued := []\<rparr>)"

text \<open>
  \<^verbatim>\<open>
  def _formatelapsedtime(self):
      etime=self.queryData[-1]/1000.
      if etime <= 60:
          elaptime=str(round(etime, 2)) + " s"
      else:
          m=int(round(etime/60))
          s=int(round(etime%60))
          elaptime=str(m) + " min " + str(s) + " s"
      return elaptime
  \<close>
  \<^verbatim>\<open>a % b\<close> on floats with a positive \<open>b\<close> is \<open>a - b * floor (a / b)\<close>.
\<close>

definition py_fmod :: "real \<Rightarrow> real \<Rightarrow> real" where
  "py_fmod a b = a - b * of_int \<lfloor>a / b\<rfloor>"

definition formatelapsedtime :: "stats_window \<Rightarrow> exn + elapsed" where
  "formatelapsedtime self =
     (if queryData self = [] then Inl IndexError
      else
        (let etime = last (queryData self) / 1000 in
         if etime \<le> 60 then Inr (Seconds (py_round etime 2))
         else Inr (MinSec (py_int (py_round (etime / 60) 0))
                          (py_int (py_round (py_fmod etime 60) 0)))))"

text \<open>
  \<^verbatim>\<open>np.hstack(res1)\<close>: \<open>res1\<close> is the list of rows of the first query, each row the list of
  its columns; the rows are laid end to end. On an empty list of rows the call raises
  (a ValueError, "need at least one array to concatenate").
\<close>

definition np_hstack :: "real list list \<Rightarrow> exn + real list" where
  "np_hstack rows = (if rows = [] then Inl ValueError else Inr (concat rows))"

text \<open>
  \<^verbatim>\<open>
  def OnDataReady(self, res1, res2, errorstr):
      if not errorstr:
          try:
              self.queryData=np.hstack(res1)
              self.totalEvents=len( res2 )
              c=self._caprate()
              self.neventsLabel.setText( str(self.totalEvents) )
              self.errorrateLabel.setText( str(round(100.*(1 - len(self.queryData)/float(self.totalEvents)), 2)) + ' %' )
              self.caprateLabel.setText( str(c[0]) + " &#177; " + str(c[1]) + " s<sup>-1</sup>" )
              self.elapsedtimeLabel.setText( self._formatelapsedtime() )
              self.queryRunning=False
          except ZeroDivisionError:
              print "zero"
              pass
          except:
              raise
  \<close>
  The result is the window after the call and the exception that left the slot, if any.
  A ZeroDivisionError is caught (the line printed to standard output is not modelled);
  every other exception is raised again.
\<close>

definition OnDataReady ::
  "'cov fitlib \<Rightarrow> real list list \<Rightarrow> string list list \<Rightarrow> string \<Rightarrow> stats_window
     \<Rightarrow> stats_window \<times> exn option" where
  "OnDataReady lib res1 res2 errorstr s =
     (if errorstr \<noteq> [] then (s, None)
      else
        (case np_hstack res1 of
           Inl e \<Rightarrow> (s, Some e)
         | Inr qd \<Rightarrow>
             (let s1 = s\<lparr>queryData := qd, totalEvents := length res2\<rparr>;
                  c = caprate lib s1;
                  s2 = s1\<lparr>neventsLabel := Some (totalEvents s1)\<rparr>
              in case py_truediv (real (length (queryData s2))) (real (totalEvents s2)) of
                   Inl e \<Rightarrow> (s2, None)
                 | Inr q \<Rightarrow>
                     (let s3 = s2\<lparr>errorrateLabel := Some (py_round (100 * (1 - q)) 2),
                                  caprateLabel := Some c\<rparr>
                      in case formatelapsedtime s3 of
                           Inl e \<Rightarrow> (s3, Some e)
                         | Inr t \<Rightarrow>
                             (s3\<lparr>elapsedtimeLabel := Some t, queryRunning := False\<rparr>, None)))))"

subsection \<open>The refresh loop as a transition system\<close>

text \<open>
  The window changes in two ways: the timer fires (\<^verbatim>\<open>OnAppIdle\<close>), or the worker answers
  the oldest posted invocation and the slot \<^verbatim>\<open>OnDataReady\<close> runs with whatever it sent.
  Modelled from the spec: the worker (\<^verbatim>\<open>qtgui/sqlQueryWorker.py\<close>, not among the sources)
  executes exactly one round-trip per invocation and reports it once, as results or as
  an error string. An exception that leaves a slot is printed by the event loop, which
  goes on with the window as the slot left it.
\<close>

inductive reachable :: "'cov fitlib \<Rightarrow> stats_window \<Rightarrow> bool" for lib :: "'cov fitlib" where
  opened: "reachable lib (openDBFile s)"
| tick: "reachable lib s \<Longrightarrow> reachable lib (OnAppIdle s)"
| answered:
    "reachable lib s \<Longrightarrow> queued s = q # qs \<Longrightarrow>
     reachable lib (fst (OnDataReady lib res1 res2 errorstr (s\<lparr>queued := qs\<rparr>)))"

subsection \<open>The rounding rule in the specification's words\<close>

text \<open>
  The specification words the number of digits as \<open>min(0, floor(log10(rate)))\<close>. This
  second definition follows those words and is otherwise \<open>roundcaprate\<close>; it is there to be
  compared with the code.
\<close>

definition sigDigits_spec :: "real \<Rightarrow> int" where
  "sigDigits_spec rate = min 0 \<lfloor>log 10 rate\<rfloor>"

definition roundcaprate_spec :: "real \<times> real \<Rightarrow> pyobj \<times> pyobj" where
  "roundcaprate_spec pair =
     (case pair of (rate, err) \<Rightarrow>
        if rate \<le> 0 then pair0
        else if rate < 10
        then (PyFloat (py_round rate (sigDigits_spec rate)),
              PyFloat (py_round err (sigDigits_spec rate - 1)))
        else (PyInt (py_int (py_round rate (sigDigits_spec rate))),
              PyInt (py_int (py_round err (sigDigits_spec rate)))))"

section \<open>The metadata store interface: \<^verbatim>\<open>mosaic/mdio/metaMDIO.py\<close>\<close>

text \<open>
  An object is the dictionary of its instance attributes and the name of its class.
  \<^verbatim>\<open>__init__\<close> stores the process id and a timing object. The attribute names of the
  model are ordinary instance attributes; the three read-only properties of the class
  (\<^verbatim>\<open>mdColumnNames\<close>, \<^verbatim>\<open>mdColumnTypes\<close>, \<^verbatim>\<open>dbFile\<close>) are not attributes of this dictionary.
\<close>

record metaMDIO =
  attrs :: "string \<rightharpoonup> pyobj"
  type_name :: string

definition hasattr :: "metaMDIO \<Rightarrow> string \<Rightarrow> bool" where
  "hasattr self k = (attrs self k \<noteq> None)"

definition metaMDIO_init :: "string \<Rightarrow> int \<Rightarrow> metaMDIO" where
  "metaMDIO_init cls getpid =
     \<lparr>attrs = [''pid'' \<mapsto> PyInt getpid, ''timingObj'' \<mapsto> PyObj ''mosaicTiming''],
      type_name = cls\<rparr>"

definition missing_arguments :: "string \<Rightarrow> string \<Rightarrow> exn" where
  "missing_arguments key cls =
     InsufficientArgumentsError
       (''Missing arguments: '' @ [CHR 0x27] @ key @ [CHR 0x27]
          @ '' must be supplied to initialize '' @ cls)"

text \<open>
  \<^verbatim>\<open>
  def initDB(self, **kwargs):
      # start by setting all passed keyword arguments as class attributes
      for (k,v) in kwargs.iteritems():
          setattr(self, k, v)
      if not hasattr(self, 'dbPath'):
          raise InsufficientArgumentsError("Missing arguments: 'dbPath' must be supplied to initialize {0}".format(type(self).__name__))
      if not hasattr(self, 'colNames'):
          raise InsufficientArgumentsError("Missing arguments: 'colNames' must be supplied to initialize {0}".format(type(self).__name__))
      if not hasattr(self, 'colNames_t'):
          raise InsufficientArgumentsError("Missing arguments: 'colNames_t' must be supplied to initialize {0}".format(type(self).__name__))
      self._initdb(**kwargs)
  \<close>
  \<open>kwargs\<close> is a dictionary, so the loop of \<^verbatim>\<open>setattr\<close> calls overrides the object's
  attributes with the entries of \<open>kwargs\<close>, in whatever order it runs. \<^verbatim>\<open>_initdb\<close> is
  abstract: the backend's method is a parameter, which gets the object and the arguments
  and returns the object and the exception it raised, if any. The result of \<open>initDB\<close>
  has the same shape: the object is mutated in place, whether or not it raises.
\<close>

definition initDB ::
  "(metaMDIO \<Rightarrow> (string \<rightharpoonup> pyobj) \<Rightarrow> metaMDIO \<times> exn option)
     \<Rightarrow> (string \<rightharpoonup> pyobj) \<Rightarrow> metaMDIO \<Rightarrow> metaMDIO \<times> exn option" where
  "initDB initdb kwargs self =
     (let self1 = self\<lparr>attrs := attrs self ++ kwargs\<rparr> in
      if \<not> hasattr self1 ''dbPath''
      then (self1, Some (missing_arguments ''dbPath'' (type_name self1)))
      else if \<not> hasattr self1 ''colNames''
      then (self1, Some (missing_arguments ''colNames'' (type_name self1)))
      else if \<not> hasattr self1 ''colNames_t''
      then (self1, Some (missing_arguments ''colNames_t'' (type_name self1)))
      else initdb self1 kwargs)"

text \<open>
  \<^verbatim>\<open>_initdb\<close> as \<^verbatim>\<open>metaMDIO\<close> itself writes it: the body is \<^verbatim>\<open>pass\<close>.
\<close>

definition initdb_pass :: "metaMDIO \<Rightarrow> (string \<rightharpoonup> pyobj) \<Rightarrow> metaMDIO \<times> exn option" where
  "initdb_pass self kwargs = (self, None)"

text \<open>
  "One of the required keys is absent", and the lengths of two column lists.
\<close>

definition required_keys :: "string list" where
  "required_keys = [''dbPath'', ''colNames'', ''colNames_t'']"

definition is_missing_argument :: "exn option \<Rightarrow> bool" where
  "is_missing_argument r =
     (case r of Some (InsufficientArgumentsError m) \<Rightarrow> True | _ \<Rightarrow> False)"

definition py_len :: "pyobj option \<Rightarrow> nat option" where
  "py_len v = (case v of Some (PyList xs) \<Rightarrow> Some (length xs) | _ \<Rightarrow> None)"

text \<open>
  \<^verbatim>\<open>
  def _generateRecordKey(self):
      return float(self.timingObj.time()+self.pid)
  \<close>
  The timing module is not among the sources: the reading of its clock is the
  parameter \<open>now\<close>.
\<close>

definition generateRecordKey :: "real \<Rightarrow> metaMDIO \<Rightarrow> exn + real" where
  "generateRecordKey now self =
     (case attrs self ''pid'' of
        None \<Rightarrow> Inl (AttributeError ''pid'')
      | Some (PyInt p) \<Rightarrow> Inr (now + of_int p)
      | Some (PyFloat p) \<Rightarrow> Inr (now + p)
      | Some other \<Rightarrow> Inl TypeError)"

section \<open>Reading ABF files: \<^verbatim>\<open>mosaic/abfTrajIO.py\<close>\<close>

text \<open>
  \<^verbatim>\<open>
  import mosaic.metaTrajIO
  import abf.abf as abf
  import mosaic.utilities.mosaicLog as log
  import numpy as np
  ...
  def readdata(self, fname):
      [freq, self.fileFormat, self.bandwidth, self.gain, dat] = abf.abfload_gp(fname)
      if not hasattr(self, 'Fs'):
          self.Fs=freq
      else:
          if self.Fs!=freq:
              raise metaTrajIO.SamplingRateChangedError("The sampling rate in the data file '{0}' has changed.".format(f))
      return dat
  \<close>
  The decoder \<^verbatim>\<open>abf.abfload_gp\<close> is a parameter. An attribute that does not exist yet is
  \<open>None\<close>. The \<^verbatim>\<open>raise\<close> statement first evaluates \<^verbatim>\<open>metaTrajIO.SamplingRateChangedError\<close>;
  the module binds the names \<^verbatim>\<open>mosaic\<close>, \<^verbatim>\<open>abf\<close>, \<^verbatim>\<open>log\<close> and \<^verbatim>\<open>np\<close> only (and the function
  has no \<^verbatim>\<open>f\<close>), so what is raised there is a NameError for \<^verbatim>\<open>metaTrajIO\<close>.
\<close>

record abf_file =
  freq :: real
  file_format :: string
  file_bandwidth :: real
  file_gain :: real
  dat :: "real list"

record abfTrajIO =
  Fs :: "real option"
  fileFormat :: "string option"
  bandwidth :: "real option"
  gain :: "real option"

definition readdata ::
  "(string \<Rightarrow> abf_file) \<Rightarrow> string \<Rightarrow> abfTrajIO \<Rightarrow> abfTrajIO \<times> (exn + real list)" where
  "readdata abfload_gp fname self =
     (let r = abfload_gp fname;
          self1 = self\<lparr>fileFormat := Some (file_format r),
                       bandwidth := Some (file_bandwidth r),
                       gain := Some (file_gain r)\<rparr>
      in case Fs self1 of
           None \<Rightarrow> (self1\<lparr>Fs := Some (freq r)\<rparr>, Inr (dat r))
         | Some fs \<Rightarrow>
             if fs \<noteq> freq r then (self1, Inl (NameError ''metaTrajIO''))
             else (self1, Inr (dat r)))"

section \<open>Properties of the capture-rate estimator\<close>

text \<open>
  C1. \<^verbatim>\<open>_caprate\<close> returns exactly the pair \<^verbatim>\<open>[0,0]\<close> when fewer than 200 timestamps are
  available, whatever the timestamps and whatever the fitting library would do with
  them; it also returns \<^verbatim>\<open>[0,0]\<close> when the curve fit raises (it did not converge) and when
  the covariance it returned makes \<^verbatim>\<open>np.sqrt(np.diag(pcov))\<close> raise. In each case the pair is
  the constant one: nothing of a fit is in it.
\<close>

theorem caprate_zero_pair:
  "(length (queryData self) < 200 \<longrightarrow> caprate lib self = (PyInt 0, PyInt 0))
   \<and> (curve_fit lib (map (\<lambda>d. d / 1000) (np_diff (queryData self))) = Inl e
        \<longrightarrow> caprate lib self = (PyInt 0, PyInt 0))
   \<and> (curve_fit lib (map (\<lambda>d. d / 1000) (np_diff (queryData self))) = Inr (popt, pcov)
        \<and> sqrt_diag lib pcov = Inl e' \<longrightarrow> caprate lib self = (PyInt 0, PyInt 0))"
  by (simp add: caprate_def pair0_def)

theorem caprate_zero_pair_witness:
  "length (queryData StatisticsWindow_init) < 200
   \<and> caprate \<lparr>curve_fit = (\<lambda>ts. Inr ((1, 5), ())), sqrt_diag = (\<lambda>c. Inr [])\<rparr>
        StatisticsWindow_init = (PyInt 0, PyInt 0)
   \<and> \<not> length (queryData (StatisticsWindow_init\<lparr>queryData := replicate 200 0\<rparr>)) < 200
   \<and> caprate \<lparr>curve_fit = (\<lambda>ts. Inl RuntimeError), sqrt_diag = (\<lambda>c::unit. Inr [])\<rparr>
        (StatisticsWindow_init\<lparr>queryData := replicate 200 0\<rparr>) = (PyInt 0, PyInt 0)
   \<and> caprate \<lparr>curve_fit = (\<lambda>ts. Inr ((1, 5), ())), sqrt_diag = (\<lambda>c. Inl ValueError)\<rparr>
        (StatisticsWindow_init\<lparr>queryData := replicate 200 0\<rparr>) = (PyInt 0, PyInt 0)"
  using caprate_zero_pair [of StatisticsWindow_init
          "\<lparr>curve_fit = (\<lambda>ts. Inr ((1, 5), ())), sqrt_diag = (\<lambda>c. Inr [])\<rparr>"
          RuntimeError "(1, 5)" "()" ValueError]
        caprate_zero_pair [of "StatisticsWindow_init\<lparr>queryData := replicate 200 0\<rparr>"
          "\<lparr>curve_fit = (\<lambda>ts. Inl RuntimeError), sqrt_diag = (\<lambda>c::unit. Inr [])\<rparr>"
          RuntimeError "(1, 5)" "()" ValueError]
        caprate_zero_pair [of "StatisticsWindow_init\<lparr>queryData := replicate 200 0\<rparr>"
          "\<lparr>curve_fit = (\<lambda>ts. Inr ((1, 5), ())), sqrt_diag = (\<lambda>c. Inl ValueError)\<rparr>"
          RuntimeError "(1, 5)" "()" ValueError]
  by (simp add: StatisticsWindow_init_def)

text \<open>
  C5. When there are at least 200 timestamps and the fit succeeds with the parameter
  \<open>tau\<close> (not zero), the pair handed to the display rounding is the rate \<open>1 / tau\<close> and
  the error \<open>1 / (tau * sqrt N)\<close>, where \<open>N\<close> is the number of timestamps of the sample,
  \<^verbatim>\<open>len(self.queryData)\<close>.
\<close>

theorem caprate_of_fit:
  "200 \<le> length (queryData self) \<Longrightarrow>
   curve_fit lib (map (\<lambda>d. d / 1000) (np_diff (queryData self))) = Inr ((a, tau), pcov) \<Longrightarrow>
   sqrt_diag lib pcov = Inr perr \<Longrightarrow> tau \<noteq> 0 \<Longrightarrow>
   caprate lib self
     = roundcaprate (1 / tau, 1 / (tau * sqrt (real (length (queryData self)))))"
  by (simp add: caprate_def)

theorem caprate_of_fit_witness:
  "200 \<le> length (queryData (StatisticsWindow_init\<lparr>queryData := replicate 200 0\<rparr>))
   \<and> (5::real) \<noteq> 0
   \<and> caprate \<lparr>curve_fit = (\<lambda>ts. Inr ((1, 5), ())), sqrt_diag = (\<lambda>c. Inr [])\<rparr>
        (StatisticsWindow_init\<lparr>queryData := replicate 200 0\<rparr>)
      = roundcaprate (1 / 5, 1 / (5 * sqrt (real 200)))"
  using caprate_of_fit [of "StatisticsWindow_init\<lparr>queryData := replicate 200 0\<rparr>"
          "\<lparr>curve_fit = (\<lambda>ts. Inr ((1, 5), ())), sqrt_diag = (\<lambda>c. Inr [])\<rparr>" 1 5 "()" "[]"]
  by (simp add: StatisticsWindow_init_def)

text \<open>
  The number of digits: \<^verbatim>\<open>int\<close> truncates \<open>min(0, log10(x))\<close> towards zero, which on a
  number that is not positive is its ceiling; from 1 on it is 0.
\<close>

lemma py_int_zero: "py_int 0 = 0"
  by (simp add: py_int_def)

lemma sigx_ceiling: "0 < x \<Longrightarrow> py_int (min 0 (log 10 x)) = \<lceil>min 0 (log 10 x)\<rceil>"
  by (simp add: py_int_def min_def)

lemma roundcaprate_general:
  "roundcaprate (x, y) =
     (if x \<le> 0 then (PyInt 0, PyInt 0)
      else if x < 10
      then (PyFloat (py_round x \<lceil>min 0 (log 10 x)\<rceil>),
            PyFloat (py_round y (\<lceil>min 0 (log 10 x)\<rceil> - 1)))
      else (PyInt (py_int (py_round x 0)), PyInt (py_int (py_round y 0))))"
proof (cases "0 < x")
  case False
  then show ?thesis by (simp add: roundcaprate_def math_log10_def pair0_def)
next
  case True
  show ?thesis
  proof (cases "x < 10")
    case True
    with \<open>0 < x\<close> show ?thesis
      by (simp add: roundcaprate_def math_log10_def sigx_ceiling Let_def)
  next
    case False
    then have "1 \<le> x" by simp
    with False \<open>0 < x\<close> show ?thesis
      by (simp add: roundcaprate_def math_log10_def py_int_zero Let_def)
  qed
qed

text \<open>
  C4, as amended. \<^verbatim>\<open>_roundcaprate\<close> returns \<^verbatim>\<open>[0,0]\<close> for a rate that is not positive.
  For a positive rate the number of digits is \<open>min(0, log10(rate))\<close> truncated towards
  zero, that is its ceiling (not its floor); below 10 the result is the pair of floats
  \<open>[round(rate, sigDigits), round(error, sigDigits - 1)]\<close>, from 10 on (where the number of
  digits is 0) both components are rounded and converted to integers. In particular
  \<^verbatim>\<open>_roundcaprate([12.345, 1.234])\<close> is the integer pair \<^verbatim>\<open>[12, 1]\<close> and
  \<^verbatim>\<open>_roundcaprate([3.456, 0.789])\<close> is the float pair \<^verbatim>\<open>[3.0, 0.0]\<close>.
\<close>

theorem roundcaprate_rule:
  "roundcaprate (x, y) =
     (if x \<le> 0 then (PyInt 0, PyInt 0)
      else if x < 10
      then (PyFloat (py_round x \<lceil>min 0 (log 10 x)\<rceil>),
            PyFloat (py_round y (\<lceil>min 0 (log 10 x)\<rceil> - 1)))
      else (PyInt (py_int (py_round x 0)), PyInt (py_int (py_round y 0))))
   \<and> roundcaprate (12.345, 1.234) = (PyInt 12, PyInt 1)
   \<and> roundcaprate (3.456, 0.789) = (PyFloat 3, PyFloat 0)"
proof -
  have "roundcaprate (12.345, 1.234) = (PyInt 12, PyInt 1)"
    by (simp add: roundcaprate_general py_int_def py_round_def)
  moreover have "roundcaprate (3.456, 0.789) = (PyFloat 3, PyFloat 0)"
    by (simp add: roundcaprate_general py_round_def)
  ultimately show ?thesis
    using roundcaprate_general [of x y] by simp
qed

text \<open>
  The rule at a rate of 0.2 events per second with an error of 0.02: the logarithm is
  between -1 and 0, the number of digits is 0, and the pair is \<^verbatim>\<open>[0.0, 0.0]\<close>.
\<close>

theorem roundcaprate_rule_witness:
  "roundcaprate (1 / 5, 1 / 50) = (PyFloat 0, PyFloat 0)"
proof -
  have "\<lceil>log 10 (1 / 5)\<rceil> = 0"
    by (simp add: ceiling_eq_iff less_log_iff)
  moreover have "min 0 (log 10 (1 / 5)) = log 10 (1 / 5)"
    by (simp add: min_def)
  ultimately show ?thesis
    using roundcaprate_rule [of "1 / 5" "1 / 50"] by (simp add: py_round_def)
qed

text \<open>
  C4 as the specification states it, with the floor, fails at the rate 0.7 and the
  error 0.05: the floor of the logarithm is -1, so the specification's rule rounds the
  rate to tens and gives \<^verbatim>\<open>[0.0, 0.0]\<close>, while the code truncates the logarithm to 0,
  rounds the rate to units and gives \<^verbatim>\<open>[1.0, 0.0]\<close>.
\<close>

lemma ceiling_log10_seven_tenths: "\<lceil>log 10 (7 / 10)\<rceil> = 0"
  by (simp add: ceiling_eq_iff less_log_iff)

lemma floor_log10_seven_tenths: "\<lfloor>log 10 (7 / 10)\<rfloor> = - 1"
  by (simp add: floor_eq_iff le_log_iff)

lemma roundcaprate_seven_tenths: "roundcaprate (7 / 10, 1 / 20) = (PyFloat 1, PyFloat 0)"
proof -
  have "min 0 (log 10 (7 / 10)) = log 10 (7 / 10)"
    by (simp add: min_def)
  then show ?thesis
    by (simp add: roundcaprate_general ceiling_log10_seven_tenths py_round_def)
qed

lemma roundcaprate_spec_seven_tenths:
  "roundcaprate_spec (7 / 10, 1 / 20) = (PyFloat 0, PyFloat 0)"
  by (simp add: roundcaprate_spec_def sigDigits_spec_def floor_log10_seven_tenths py_round_def)

theorem roundcaprate_floor_counterexample:
  "roundcaprate (7 / 10, 1 / 20) \<noteq> roundcaprate_spec (7 / 10, 1 / 20)"
  by (simp add: roundcaprate_seven_tenths roundcaprate_spec_seven_tenths)

section \<open>Properties of the refresh loop\<close>

lemma OnDataReady_queued: "queued (fst (OnDataReady lib res1 res2 errorstr s)) = queued s"
  by (simp add: OnDataReady_def Let_def split: sum.splits)

lemma OnDataReady_error_unchanged:
  "errorstr \<noteq> [] \<Longrightarrow> OnDataReady lib res1 res2 errorstr s = (s, None)"
  by (simp add: OnDataReady_def)

text \<open>
  In every state of the loop at most one invocation is posted and unanswered, and the
  flag is set whenever there is one: the flag is cleared only by \<^verbatim>\<open>OnDataReady\<close>, which
  runs when the one posted invocation has been answered.
\<close>

lemma reachable_invariant:
  "reachable lib s \<Longrightarrow> length (queued s) \<le> 1 \<and> (queryRunning s \<or> queued s = [])"
proof (induction rule: reachable.induct)
  case (opened s)
  show ?case by (simp add: openDBFile_def updatequery_def)
next
  case (tick s)
  then show ?case by (auto simp: OnAppIdle_def updatequery_def)
next
  case (answered s q qs res1 res2 errorstr)
  then have "qs = []" by simp
  then show ?case by (simp add: OnDataReady_queued)
qed

text \<open>
  C7. While the query-running flag is set, a timer tick leaves the window as it is: no
  query is posted, nothing is queued. And in every state that the loop reaches from
  \<^verbatim>\<open>openDBFile\<close> by ticks and answers, at most one query is outstanding.
\<close>

theorem tick_while_query_running:
  "(queryRunning s \<longrightarrow> OnAppIdle s = s) \<and> (reachable lib s \<longrightarrow> length (queued s) \<le> 1)"
  by (auto simp: OnAppIdle_def dest: reachable_invariant)

theorem tick_while_query_running_witness:
  "queryRunning (openDBFile StatisticsWindow_init)
   \<and> OnAppIdle (openDBFile StatisticsWindow_init) = openDBFile StatisticsWindow_init
   \<and> reachable \<lparr>curve_fit = (\<lambda>ts. Inr ((1, 5), ())), sqrt_diag = (\<lambda>c. Inr [])\<rparr>
        (OnAppIdle (openDBFile StatisticsWindow_init))
   \<and> length (queued (OnAppIdle (openDBFile StatisticsWindow_init))) = 1"
proof -
  let ?lib = "\<lparr>curve_fit = (\<lambda>ts. Inr ((1::real, 5::real), ())), sqrt_diag = (\<lambda>c. Inr [])\<rparr>"
  have run: "queryRunning (openDBFile StatisticsWindow_init)"
    by (simp add: openDBFile_def updatequery_def)
  have reach: "reachable ?lib (OnAppIdle (openDBFile StatisticsWindow_init))"
    by (intro reachable.tick reachable.opened)
  have noop: "OnAppIdle (openDBFile StatisticsWindow_init) = openDBFile StatisticsWindow_init"
    using tick_while_query_running [of "openDBFile StatisticsWindow_init" ?lib] run by simp
  have "length (queued (OnAppIdle (openDBFile StatisticsWindow_init))) \<le> 1"
    using tick_while_query_running [of "OnAppIdle (openDBFile StatisticsWindow_init)" ?lib] reach
    by simp
  moreover have "queued (openDBFile StatisticsWindow_init) \<noteq> []"
    by (simp add: openDBFile_def updatequery_def)
  ultimately have "length (queued (OnAppIdle (openDBFile StatisticsWindow_init))) = 1"
    using noop by (cases "queued (openDBFile StatisticsWindow_init)") auto
  with run reach noop show ?thesis by simp
qed

lemma OnAppIdle_funpow_running: "queryRunning s \<Longrightarrow> (OnAppIdle ^^ n) s = s"
  by (induction n) (simp_all add: OnAppIdle_def)

text \<open>
  C2. The window has a query in flight (\<^verbatim>\<open>openDBFile\<close> posted it, the worker took it) and the
  worker answers with the error string "database is locked". \<^verbatim>\<open>OnDataReady\<close> returns
  without an exception and leaves the window as it was, the labels included; but the
  flag \<^verbatim>\<open>queryRunning\<close> is as it was too, set, so that any number \<open>n\<close> of timer ticks
  afterwards leave the window unchanged and post no query.
\<close>

theorem stuck_after_query_error:
  "OnDataReady lib res1 res2 ''database is locked'' ((openDBFile s)\<lparr>queued := []\<rparr>)
     = ((openDBFile s)\<lparr>queued := []\<rparr>, None)
   \<and> (OnAppIdle ^^ n) ((openDBFile s)\<lparr>queued := []\<rparr>) = (openDBFile s)\<lparr>queued := []\<rparr>
   \<and> queued ((OnAppIdle ^^ n) ((openDBFile s)\<lparr>queued := []\<rparr>)) = []"
proof -
  have run: "queryRunning ((openDBFile s)\<lparr>queued := []\<rparr>)"
    by (simp add: openDBFile_def updatequery_def)
  show ?thesis
    by (simp add: OnDataReady_error_unchanged OnAppIdle_funpow_running [OF run])
qed

section \<open>Properties of the displayed error rate\<close>

text \<open>
  With at least one row in each result, the error-rate label shows
  \<open>100 * (1 - matched / total)\<close> rounded to two places. With no row in the second result
  the label keeps what it showed, and when the first result has rows the division
  fault is caught there.
\<close>

lemma errorrate_displayed:
  "res1 \<noteq> [] \<Longrightarrow> res2 \<noteq> [] \<Longrightarrow>
   errorrateLabel (fst (OnDataReady lib res1 res2 [] s))
     = Some (py_round (100 * (1 - real (length (concat res1)) / real (length res2))) 2)"
  by (simp add: OnDataReady_def np_hstack_def py_truediv_def Let_def split: sum.splits)

lemma zero_total_retains:
  "res2 = [] \<Longrightarrow> errorrateLabel (fst (OnDataReady lib res1 res2 errorstr s)) = errorrateLabel s"
  by (simp add: OnDataReady_def np_hstack_def py_truediv_def Let_def split: sum.splits)

lemma zero_total_caught:
  "res1 \<noteq> [] \<Longrightarrow> snd (OnDataReady lib res1 [] errorstr s) = None"
  by (simp add: OnDataReady_def np_hstack_def py_truediv_def Let_def split: sum.splits)

text \<open>
  C3. A snapshot with one event in total and no event of status "normal": the total is
  1 and the error rate to display is 100 per cent, but \<^verbatim>\<open>np.hstack\<close> raises on the empty
  list of rows, the handler raises it again, and the window, the error-rate label
  included, is as before.
\<close>

theorem no_matching_events_raises:
  "OnDataReady lib [] [[''rejected'']] [] s = (s, Some ValueError)"
  by (simp add: OnDataReady_def np_hstack_def)

section \<open>Properties of the metadata store interface\<close>

text \<open>
  C8. For an object whose \<^verbatim>\<open>pid\<close> is the integer that \<^verbatim>\<open>__init__\<close> stored,
  \<^verbatim>\<open>_generateRecordKey\<close> returns the single number: clock reading plus process id; and of
  two calls, the second with a clock reading that is not smaller, the second key is
  not smaller (equal readings give equal keys).
\<close>

theorem generateRecordKey_monotone:
  "attrs self ''pid'' = Some (PyInt p) \<Longrightarrow> t1 \<le> t2 \<Longrightarrow>
   generateRecordKey t1 self = Inr (t1 + of_int p)
   \<and> (\<exists>k1 k2. generateRecordKey t1 self = Inr k1 \<and> generateRecordKey t2 self = Inr k2
          \<and> k1 \<le> k2)"
  by (simp add: generateRecordKey_def)

theorem generateRecordKey_monotone_witness:
  "attrs (metaMDIO_init ''sqlite3MDIO'' 4242) ''pid'' = Some (PyInt 4242) \<and> (10::real) \<le> 11
   \<and> generateRecordKey 10 (metaMDIO_init ''sqlite3MDIO'' 4242) = Inr (10 + of_int 4242)
   \<and> (\<exists>k1 k2. generateRecordKey 10 (metaMDIO_init ''sqlite3MDIO'' 4242) = Inr k1
          \<and> generateRecordKey 11 (metaMDIO_init ''sqlite3MDIO'' 4242) = Inr k2 \<and> k1 \<le> k2)"
proof -
  have pid: "attrs (metaMDIO_init ''sqlite3MDIO'' 4242) ''pid'' = Some (PyInt 4242)"
    by (simp add: metaMDIO_init_def)
  have clock: "(10::real) \<le> 11"
    by simp
  from generateRecordKey_monotone [OF pid clock] pid clock show ?thesis
    by blast
qed

lemma initDB_missing:
  "k \<in> set required_keys \<Longrightarrow> (attrs self ++ kwargs) k = None \<Longrightarrow>
   is_missing_argument (snd (initDB initdb kwargs self))
   \<and> fst (initDB initdb kwargs self) = self\<lparr>attrs := attrs self ++ kwargs\<rparr>"
  by (auto simp: initDB_def hasattr_def required_keys_def is_missing_argument_def
        missing_arguments_def Let_def)

lemma initDB_delegates:
  "\<forall>k \<in> set required_keys. (attrs self ++ kwargs) k \<noteq> None \<Longrightarrow>
   initDB initdb kwargs self = initdb (self\<lparr>attrs := attrs self ++ kwargs\<rparr>) kwargs"
  by (auto simp: initDB_def hasattr_def required_keys_def Let_def)

text \<open>
  C6, as amended. \<^verbatim>\<open>initDB\<close> raises the missing-argument error when, after the keyword
  arguments have been set, one of \<^verbatim>\<open>dbPath\<close>, \<^verbatim>\<open>colNames\<close>, \<^verbatim>\<open>colNames_t\<close> is not an attribute of
  the object; when all three are attributes it does what the backend's \<^verbatim>\<open>_initdb\<close> does
  with the object and the arguments, whatever the lengths of the two column lists,
  which it never compares. For an object that has none of the three attributes before
  the call, one is missing afterwards exactly when one is absent from the arguments.
\<close>

theorem initDB_validation:
  "((\<exists>k \<in> set required_keys. (attrs self ++ kwargs) k = None) \<longrightarrow>
      is_missing_argument (snd (initDB initdb kwargs self)))
   \<and> ((\<forall>k \<in> set required_keys. (attrs self ++ kwargs) k \<noteq> None) \<longrightarrow>
      initDB initdb kwargs self = initdb (self\<lparr>attrs := attrs self ++ kwargs\<rparr>) kwargs)
   \<and> ((\<forall>k \<in> set required_keys. attrs self k = None) \<longrightarrow>
      ((\<exists>k \<in> set required_keys. (attrs self ++ kwargs) k = None)
         \<longleftrightarrow> (\<exists>k \<in> set required_keys. kwargs k = None)))"
proof (intro conjI impI)
  assume "\<exists>k \<in> set required_keys. (attrs self ++ kwargs) k = None"
  then show "is_missing_argument (snd (initDB initdb kwargs self))"
    using initDB_missing by blast
next
  assume "\<forall>k \<in> set required_keys. (attrs self ++ kwargs) k \<noteq> None"
  then show "initDB initdb kwargs self = initdb (self\<lparr>attrs := attrs self ++ kwargs\<rparr>) kwargs"
    by (rule initDB_delegates)
next
  assume "\<forall>k \<in> set required_keys. attrs self k = None"
  then show "(\<exists>k \<in> set required_keys. (attrs self ++ kwargs) k = None)
         \<longleftrightarrow> (\<exists>k \<in> set required_keys. kwargs k = None)"
    by (auto simp: map_add_def split: option.splits)
qed

theorem initDB_validation_witness:
  "(attrs (metaMDIO_init ''sqlite3MDIO'' 4242)
      ++ [''dbPath'' \<mapsto> PyStr ''/data'', ''colNames'' \<mapsto> PyList [PyStr ''resTime'']])
     ''colNames_t'' = None
   \<and> is_missing_argument
        (snd (initDB initdb_pass
               [''dbPath'' \<mapsto> PyStr ''/data'', ''colNames'' \<mapsto> PyList [PyStr ''resTime'']]
               (metaMDIO_init ''sqlite3MDIO'' 4242)))
   \<and> (attrs (metaMDIO_init ''sqlite3MDIO'' 4242)
         ++ [''dbPath'' \<mapsto> PyStr ''/data'', ''colNames'' \<mapsto> PyList [PyStr ''resTime''],
             ''colNames_t'' \<mapsto> PyList [PyStr ''REAL'']]) ''dbPath'' = Some (PyStr ''/data'')
   \<and> (attrs (metaMDIO_init ''sqlite3MDIO'' 4242)
         ++ [''dbPath'' \<mapsto> PyStr ''/data'', ''colNames'' \<mapsto> PyList [PyStr ''resTime''],
             ''colNames_t'' \<mapsto> PyList [PyStr ''REAL'']]) ''colNames''
        = Some (PyList [PyStr ''resTime''])
   \<and> (attrs (metaMDIO_init ''sqlite3MDIO'' 4242)
         ++ [''dbPath'' \<mapsto> PyStr ''/data'', ''colNames'' \<mapsto> PyList [PyStr ''resTime''],
             ''colNames_t'' \<mapsto> PyList [PyStr ''REAL'']]) ''colNames_t''
        = Some (PyList [PyStr ''REAL''])
   \<and> snd (initDB initdb_pass
            [''dbPath'' \<mapsto> PyStr ''/data'', ''colNames'' \<mapsto> PyList [PyStr ''resTime''],
             ''colNames_t'' \<mapsto> PyList [PyStr ''REAL'']]
            (metaMDIO_init ''sqlite3MDIO'' 4242)) = None
   \<and> attrs (metaMDIO_init ''sqlite3MDIO'' 4242) ''dbPath'' = None
   \<and> attrs (metaMDIO_init ''sqlite3MDIO'' 4242) ''colNames'' = None
   \<and> attrs (metaMDIO_init ''sqlite3MDIO'' 4242) ''colNames_t'' = None
   \<and> (\<exists>k \<in> set required_keys.
         [''dbPath'' \<mapsto> PyStr ''/data'', ''colNames'' \<mapsto> PyList [PyStr ''resTime'']] k = None)"
proof -
  let ?self = "metaMDIO_init ''sqlite3MDIO'' 4242"
  let ?two = "[''dbPath'' \<mapsto> PyStr ''/data'', ''colNames'' \<mapsto> PyList [PyStr ''resTime'']]"
  let ?three = "[''dbPath'' \<mapsto> PyStr ''/data'', ''colNames'' \<mapsto> PyList [PyStr ''resTime''],
                 ''colNames_t'' \<mapsto> PyList [PyStr ''REAL'']]"
  have absent: "\<exists>k \<in> set required_keys. (attrs ?self ++ ?two) k = None"
    by (simp add: required_keys_def metaMDIO_init_def)
  have present: "\<forall>k \<in> set required_keys. (attrs ?self ++ ?three) k \<noteq> None"
    by (simp add: required_keys_def metaMDIO_init_def)
  have fresh: "\<forall>k \<in> set required_keys. attrs ?self k = None"
    by (simp add: required_keys_def metaMDIO_init_def)
  have raised: "is_missing_argument (snd (initDB initdb_pass ?two ?self))"
    using initDB_validation [of ?self ?two initdb_pass] absent by blast
  have passed: "snd (initDB initdb_pass ?three ?self) = None"
    using initDB_validation [of ?self ?three initdb_pass] present
    by (simp add: initdb_pass_def)
  have given: "\<exists>k \<in> set required_keys. ?two k = None"
    using initDB_validation [of ?self ?two initdb_pass] absent fresh by blast
  have lookups: "(attrs ?self ++ ?two) ''colNames_t'' = None"
    "(attrs ?self ++ ?three) ''dbPath'' = Some (PyStr ''/data'')"
    "(attrs ?self ++ ?three) ''colNames'' = Some (PyList [PyStr ''resTime''])"
    "(attrs ?self ++ ?three) ''colNames_t'' = Some (PyList [PyStr ''REAL''])"
    "attrs ?self ''dbPath'' = None" "attrs ?self ''colNames'' = None"
    "attrs ?self ''colNames_t'' = None"
    by (simp_all add: metaMDIO_init_def)
  from raised passed given lookups show ?thesis
    by blast
qed

text \<open>
  C6 as the specification states it fails on column lists of different lengths: with
  all three keys given, two column names and one column type, \<^verbatim>\<open>initDB\<close> does not raise
  the missing-argument error.
\<close>

theorem initDB_mismatched_lengths_counterexample:
  "py_len ([''dbPath'' \<mapsto> PyStr ''/data'',
            ''colNames'' \<mapsto> PyList [PyStr ''blockDepth'', PyStr ''resTime''],
            ''colNames_t'' \<mapsto> PyList [PyStr ''REAL'']] ''colNames'')
     \<noteq> py_len ([''dbPath'' \<mapsto> PyStr ''/data'',
            ''colNames'' \<mapsto> PyList [PyStr ''blockDepth'', PyStr ''resTime''],
            ''colNames_t'' \<mapsto> PyList [PyStr ''REAL'']] ''colNames_t'')
   \<and> \<not> is_missing_argument
        (snd (initDB initdb_pass
               [''dbPath'' \<mapsto> PyStr ''/data'',
                ''colNames'' \<mapsto> PyList [PyStr ''blockDepth'', PyStr ''resTime''],
                ''colNames_t'' \<mapsto> PyList [PyStr ''REAL'']]
               (metaMDIO_init ''sqlite3MDIO'' 4242)))"
  by (simp add: py_len_def initDB_def hasattr_def initdb_pass_def is_missing_argument_def
        metaMDIO_init_def Let_def)

text \<open>
  C10. The keyword arguments are set as attributes before anything is checked: when
  \<^verbatim>\<open>initDB\<close> raises the missing-argument error because a required attribute \<open>r\<close> is missing,
  every argument that was passed, whatever its key, is an attribute of the object the
  call leaves behind.
\<close>

theorem initDB_not_atomic:
  "kwargs key = Some v \<Longrightarrow> r \<in> set required_keys \<Longrightarrow> (attrs self ++ kwargs) r = None \<Longrightarrow>
   is_missing_argument (snd (initDB initdb kwargs self))
   \<and> attrs (fst (initDB initdb kwargs self)) key = Some v"
  using initDB_missing [of r self kwargs initdb] by simp

theorem initDB_not_atomic_witness:
  "[''dbPath'' \<mapsto> PyStr ''/data'', ''verbose'' \<mapsto> PyInt 1] ''verbose'' = Some (PyInt 1)
   \<and> ''colNames'' \<in> set required_keys
   \<and> (attrs (metaMDIO_init ''sqlite3MDIO'' 4242)
         ++ [''dbPath'' \<mapsto> PyStr ''/data'', ''verbose'' \<mapsto> PyInt 1]) ''colNames'' = None
   \<and> attrs (metaMDIO_init ''sqlite3MDIO'' 4242) ''verbose'' = None
   \<and> is_missing_argument
        (snd (initDB initdb_pass [''dbPath'' \<mapsto> PyStr ''/data'', ''verbose'' \<mapsto> PyInt 1]
               (metaMDIO_init ''sqlite3MDIO'' 4242)))
   \<and> attrs (fst (initDB initdb_pass [''dbPath'' \<mapsto> PyStr ''/data'', ''verbose'' \<mapsto> PyInt 1]
                    (metaMDIO_init ''sqlite3MDIO'' 4242))) ''verbose'' = Some (PyInt 1)"
proof -
  let ?self = "metaMDIO_init ''sqlite3MDIO'' 4242"
  let ?kw = "[''dbPath'' \<mapsto> PyStr ''/data'', ''verbose'' \<mapsto> PyInt 1]"
  have given: "?kw ''verbose'' = Some (PyInt 1)"
    by simp
  have req: "''colNames'' \<in> set required_keys"
    by (simp add: required_keys_def)
  have absent: "(attrs ?self ++ ?kw) ''colNames'' = None"
    by (simp add: metaMDIO_init_def)
  have before: "attrs ?self ''verbose'' = None"
    by (simp add: metaMDIO_init_def)
  from initDB_not_atomic [OF given req absent, of initdb_pass] given req absent before
  show ?thesis by blast
qed

section \<open>Properties of the ABF reader\<close>

text \<open>
  What \<^verbatim>\<open>readdata\<close> does on the first file and on a file with the stored rate: it returns
  the file's data, and \<^verbatim>\<open>Fs\<close> is the file's rate afterwards.
\<close>

lemma readdata_first_file:
  "Fs self = None \<Longrightarrow>
   snd (readdata abfload_gp fname self) = Inr (dat (abfload_gp fname))
   \<and> Fs (fst (readdata abfload_gp fname self)) = Some (freq (abfload_gp fname))"
  by (simp add: readdata_def Let_def)

lemma readdata_same_rate:
  "Fs self = Some (freq (abfload_gp fname)) \<Longrightarrow>
   snd (readdata abfload_gp fname self) = Inr (dat (abfload_gp fname))
   \<and> Fs (fst (readdata abfload_gp fname self)) = Some (freq (abfload_gp fname))"
  by (simp add: readdata_def Let_def)

text \<open>
  C9. A file sampled at 50 kHz read after a file sampled at 10 kHz: \<^verbatim>\<open>readdata\<close> does not
  return, but the exception is the NameError of the unbound name \<^verbatim>\<open>metaTrajIO\<close>, not the
  SamplingRateChangedError that the docstring of \<^verbatim>\<open>readdata\<close> announces.
\<close>

theorem readdata_rate_changed:
  "readdata (\<lambda>f. \<lparr>freq = 50000, file_format = ''ABF2'', file_bandwidth = 10000, file_gain = 1,
                   dat = [1, 2]\<rparr>) ''run2.abf''
     \<lparr>Fs = Some 10000, fileFormat = Some ''ABF2'', bandwidth = Some 10000, gain = Some 1\<rparr>
   = (\<lparr>Fs = Some 10000, fileFormat = Some ''ABF2'', bandwidth = Some 10000, gain = Some 1\<rparr>,
      Inl (NameError ''metaTrajIO''))"
  by (simp add: readdata_def)

end
